theory Spec2Isabelle
  imports Main "HOL-Library.Sublist"
begin

section \<open>The guest-side facade of the sql plugin (guest-js/index.ts)\<close>

subsection \<open>Data\<close>

text \<open>
  \<^verbatim>\<open>interface QueryResult { rowsAffected: number; lastInsertId: number }\<close>.
  The facade never computes with the two numbers, so their type is left open.
\<close>

record 'n QueryResult =
  rowsAffected :: 'n
  lastInsertId :: 'n

text \<open>
  \<^verbatim>\<open>type DbConnection = `${`sqlite` | `postgres` | `mysql`}:${string}`\<close>:
  a template literal type. It exists at compile time only; at run time a descriptor is a
  plain string. The predicate says which strings inhabit the type.
\<close>

definition is_DbConnection :: "string \<Rightarrow> bool" where
  "is_DbConnection c \<longleftrightarrow>
     prefix ''sqlite:'' c \<or> prefix ''postgres:'' c \<or> prefix ''mysql:'' c"

text \<open>
  \<^verbatim>\<open>class Database { connection: DbConnection; constructor(connection) { this.connection = connection } }\<close>
\<close>

record Database =
  connection :: string

definition new_Database :: "string \<Rightarrow> Database" where
  "new_Database c = \<lparr>connection = c\<rparr>"

subsection \<open>The boundary to the native side\<close>

text \<open>
  The second argument of \<^verbatim>\<open>invoke\<close> is an object literal; its properties are
  either a string (\<^verbatim>\<open>db\<close>, \<^verbatim>\<open>sql\<close>) or the array of bind values.
\<close>

datatype 'v arg = Str string | Values "'v list"

type_synonym 'v InvokeArgs = "(string \<times> 'v arg) list"

type_synonym 'v call = "string \<times> 'v InvokeArgs"

text \<open>
  \<^verbatim>\<open>invoke<T>(cmd, args): Promise<T>\<close> is imported from the Tauri API and is not part of
  the facade, so it is a parameter of the model. The facade uses it at four result types
  (\<^verbatim>\<open>string\<close>, \<^verbatim>\<open>[number, number]\<close>, \<^verbatim>\<open>T\<close> and \<^verbatim>\<open>boolean\<close>); a HOL parameter has
  one type, hence one field for each instance. A promise that rejects with \<open>e\<close> is
  \<open>Inl e\<close>, one that resolves to \<open>x\<close> is \<open>Inr x\<close>; the native side has a state \<open>'s\<close> of
  its own that every call may change. A promise that never settles is not modelled: the
  facade has no loop and no timeout of its own, so it answers when the native side does.
\<close>

record ('s, 'e, 'v, 'n, 't) tauri =
  invoke_string :: "string \<Rightarrow> 'v InvokeArgs \<Rightarrow> 's \<Rightarrow> ('e + string) \<times> 's"
  invoke_tuple :: "string \<Rightarrow> 'v InvokeArgs \<Rightarrow> 's \<Rightarrow> ('e + 'n \<times> 'n) \<times> 's"
  invoke_T :: "string \<Rightarrow> 'v InvokeArgs \<Rightarrow> 's \<Rightarrow> ('e + 't) \<times> 's"
  invoke_boolean :: "string \<Rightarrow> 'v InvokeArgs \<Rightarrow> 's \<Rightarrow> ('e + bool) \<times> 's"

text \<open>
  What the facade runs in: the state of the native side and the sequence of invocations
  made so far, oldest first.
\<close>

record ('s, 'v) world =
  native :: 's
  trace :: "'v call list"

definition invoke ::
  "(string \<Rightarrow> 'v InvokeArgs \<Rightarrow> 's \<Rightarrow> ('e + 'r) \<times> 's) \<Rightarrow>
     string \<Rightarrow> 'v InvokeArgs \<Rightarrow> ('s, 'v) world \<Rightarrow> ('e + 'r) \<times> ('s, 'v) world" where
  "invoke h cmd args w =
     (case h cmd args (native w) of
        (r, s') \<Rightarrow> (r, \<lparr>native = s', trace = trace w @ [(cmd, args)]\<rparr>))"

subsection \<open>The static initializers\<close>

text \<open>
  \<^verbatim>\<open>static async load(connection) {
    const _conn = await invoke<string>("plugin:sql|load", { db: connection });
    return new Database(_conn as DbConnection); }\<close>
  A rejected \<^verbatim>\<open>await\<close> leaves the function at once with the same error.
\<close>

definition load ::
  "('s, 'e, 'v, 'n, 't) tauri \<Rightarrow> string \<Rightarrow> ('s, 'v) world \<Rightarrow> ('e + Database) \<times> ('s, 'v) world" where
  "load b c w =
     (case invoke (invoke_string b) ''plugin:sql|load'' [(''db'', Str c)] w of
        (Inl e, w') \<Rightarrow> (Inl e, w')
      | (Inr conn, w') \<Rightarrow> (Inr (new_Database conn), w'))"

text \<open>
  \<^verbatim>\<open>static get(connection: DbConnection): Database { return new Database(connection); }\<close>
  is synchronous: it runs in the same world as the other operations and returns at once.
\<close>

definition get :: "string \<Rightarrow> ('s, 'v) world \<Rightarrow> Database \<times> ('s, 'v) world" where
  "get c w = (new_Database c, w)"

subsection \<open>The methods\<close>

text \<open>
  A method receives the object it is called on and hands it back together with its result,
  so that an assignment to \<^verbatim>\<open>this.connection\<close> would show.
  \<^verbatim>\<open>bindValues?: unknown[]\<close> is an optional parameter, \<open>None\<close> when it is left out or
  \<^verbatim>\<open>undefined\<close>; \<^verbatim>\<open>bindValues ?? []\<close> replaces a missing one by the empty array.
\<close>

definition or_empty :: "'v list option \<Rightarrow> 'v list" where
  "or_empty bindValues = (case bindValues of None \<Rightarrow> [] | Some vs \<Rightarrow> vs)"

text \<open>
  \<^verbatim>\<open>async execute(sql, bindValues?) {
    const [rowsAffected, lastInsertId] = await invoke<[number, number]>("plugin:sql|execute",
      { db: this.connection, sql, values: bindValues ?? [] });
    return { lastInsertId, rowsAffected }; }\<close>
  The awaited value has the tuple type \<^verbatim>\<open>[number, number]\<close>, a pair, which the array
  pattern takes apart. The two local constants are called \<open>affected\<close> and \<open>inserted\<close>
  here, the field names being taken by the record.
\<close>

definition execute ::
  "('s, 'e, 'v, 'n, 't) tauri \<Rightarrow> string \<Rightarrow> 'v list option \<Rightarrow> Database \<Rightarrow> ('s, 'v) world \<Rightarrow>
     ('e + 'n QueryResult) \<times> Database \<times> ('s, 'v) world" where
  "execute b sql bindValues this w =
     (case invoke (invoke_tuple b) ''plugin:sql|execute''
             [(''db'', Str (connection this)), (''sql'', Str sql),
              (''values'', Values (or_empty bindValues))] w of
        (Inl e, w') \<Rightarrow> (Inl e, this, w')
      | (Inr (affected, inserted), w') \<Rightarrow>
          (Inr \<lparr>rowsAffected = affected, lastInsertId = inserted\<rparr>, this, w'))"

text \<open>
  \<^verbatim>\<open>async select<T>(sql, bindValues?) {
    return await invoke<T>("plugin:sql|select",
      { db: this.connection, sql, values: bindValues ?? [] }); }\<close>
\<close>

definition select ::
  "('s, 'e, 'v, 'n, 't) tauri \<Rightarrow> string \<Rightarrow> 'v list option \<Rightarrow> Database \<Rightarrow> ('s, 'v) world \<Rightarrow>
     ('e + 't) \<times> Database \<times> ('s, 'v) world" where
  "select b sql bindValues this w =
     (case invoke (invoke_T b) ''plugin:sql|select''
             [(''db'', Str (connection this)), (''sql'', Str sql),
              (''values'', Values (or_empty bindValues))] w of
        (r, w') \<Rightarrow> (r, this, w'))"

text \<open>
  \<^verbatim>\<open>async close() { return await invoke<boolean>("plugin:sql|close", { db: this.connection }); }\<close>
\<close>

definition close ::
  "('s, 'e, 'v, 'n, 't) tauri \<Rightarrow> Database \<Rightarrow> ('s, 'v) world \<Rightarrow>
     ('e + bool) \<times> Database \<times> ('s, 'v) world" where
  "close b this w =
     (case invoke (invoke_boolean b) ''plugin:sql|close'' [(''db'', Str (connection this))] w of
        (r, w') \<Rightarrow> (r, this, w'))"

section \<open>The native side, as the specification describes it\<close>

text \<open>
  The commands behind \<^verbatim>\<open>invoke\<close> are implemented on the native side of the plugin, whose
  code is not among the sources. What follows is a sequential model of it, used where a
  property is decided there. The Pool Table is kept as the list of the descriptors that
  have a pool; capacity, waiting and the connections inside a pool are left out.
\<close>

text \<open>Modelled from the spec: the schemes of a ConnectionDescriptor (section 3).\<close>

datatype scheme = sqlite | postgres | mysql

text \<open>Modelled from the spec: a ConnectionDescriptor (section 3), scheme and address.\<close>

type_synonym ConnectionDescriptor = "scheme \<times> string"

text \<open>
  Modelled from the spec: the error taxonomy of section 7. \<open>CommandNotFound\<close> is not part of
  it: it stands for the transport rejecting a command name the plugin does not register.
  \<open>UnsupportedScheme\<close> is the Driver Registry's error, unreachable after the parser.
\<close>

datatype error =
    InvalidScheme
  | UnsupportedScheme
  | ConnectionEstablishError
  | QueryExecutionError string
  | UnsupportedParameterType
  | CommandNotFound

text \<open>
  Modelled from the spec: the case-insensitive match of the Connection Descriptor Parser
  (section 4.1): a letter in its lower case, any other character unchanged.
\<close>

definition to_lower :: "char \<Rightarrow> char" where
  "to_lower c =
     (case map_of (zip ''ABCDEFGHIJKLMNOPQRSTUVWXYZ'' ''abcdefghijklmnopqrstuvwxyz'') c of
        None \<Rightarrow> c
      | Some l \<Rightarrow> l)"

text \<open>
  Modelled from the spec: the scheme a string names without regard to case (section 4.1).
\<close>

definition scheme_of :: "string \<Rightarrow> scheme option" where
  "scheme_of s =
     (let l = map to_lower s in
      if l = ''sqlite'' then Some sqlite
      else if l = ''postgres'' then Some postgres
      else if l = ''mysql'' then Some mysql
      else None)"

text \<open>
  Modelled from the spec: the Connection Descriptor Parser (section 4.1). It splits at the
  first colon; the left side must match a scheme without regard to case, else the string
  is rejected with InvalidScheme, as is a string without a colon; the right side is the
  address, not examined.
\<close>

definition parse :: "string \<Rightarrow> error + ConnectionDescriptor" where
  "parse raw =
     (if CHR '':'' \<notin> set raw then Inl InvalidScheme
      else case scheme_of (takeWhile (\<lambda>c. c \<noteq> CHR '':'') raw) of
        None \<Rightarrow> Inl InvalidScheme
      | Some s \<Rightarrow> Inr (s, drop 1 (dropWhile (\<lambda>c. c \<noteq> CHR '':'') raw)))"

text \<open>
  Modelled from the spec: a Driver (section 3), with its capabilities open, execute and
  select. The driver libraries are external; \<open>'d\<close> is whatever the databases hold. An
  execute reports the affected rows and, where the driver has one, the last inserted id;
  an error is the driver's own message.
\<close>

record ('v, 'd, 't) Driver =
  drv_open :: "string \<Rightarrow> 'd \<Rightarrow> bool"
  drv_binds :: "'v \<Rightarrow> bool"
  drv_execute :: "string \<Rightarrow> string \<Rightarrow> 'v list \<Rightarrow> 'd \<Rightarrow> (string + nat \<times> nat option) \<times> 'd"
  drv_select :: "string \<Rightarrow> string \<Rightarrow> 'v list \<Rightarrow> 'd \<Rightarrow> (string + 't) \<times> 'd"

text \<open>
  Modelled from the spec: the Pool Table (section 3), initially empty, and the data behind
  the drivers.
\<close>

record 'd plugin =
  pool_table :: "ConnectionDescriptor list"
  data :: 'd

text \<open>
  Modelled from the spec: getOrCreate (section 4.3). An existing pool is reused; otherwise
  the first connection is opened and the pool entered; a failing open is a
  ConnectionEstablishError and leaves the table as it was.
\<close>

definition getOrCreate ::
  "(scheme \<Rightarrow> ('v, 'd, 't) Driver) \<Rightarrow> ConnectionDescriptor \<Rightarrow> 'd plugin \<Rightarrow> error + 'd plugin" where
  "getOrCreate resolve d st =
     (if d \<in> set (pool_table st) then Inr st
      else if drv_open (resolve (fst d)) (snd d) (data st)
        then Inr (st\<lparr>pool_table := pool_table st @ [d]\<rparr>)
        else Inl ConnectionEstablishError)"

text \<open>
  Modelled from the spec: which backends have a meaningful last inserted id (section 3,
  QueryResult). The facade's comment on \<^verbatim>\<open>QueryResult.lastInsertId\<close> names the Postgres
  driver as the one that has none.
\<close>

definition has_last_insert_id :: "scheme \<Rightarrow> bool" where
  "has_last_insert_id s = (case s of postgres \<Rightarrow> False | _ \<Rightarrow> True)"

text \<open>
  Modelled from the spec: the normalization of a driver's execute result into the affected
  row count and the last inserted id, 0 when not applicable (section 4.4).
\<close>

definition normalize :: "scheme \<Rightarrow> nat \<times> nat option \<Rightarrow> nat \<times> nat" where
  "normalize s r =
     (fst r, if has_last_insert_id s then (case snd r of None \<Rightarrow> 0 | Some i \<Rightarrow> i) else 0)"

text \<open>
  Modelled from the spec: the native side reading a string property of an invocation's
  argument object (the descriptor and the statement of section 6); a missing property
  reads as \<open>None\<close>.
\<close>

definition str_arg :: "'v InvokeArgs \<Rightarrow> string \<Rightarrow> string option" where
  "str_arg args k = (case map_of args k of Some (Str s) \<Rightarrow> Some s | _ \<Rightarrow> None)"

text \<open>
  Modelled from the spec: the native side reading the ordered sequence of parameters
  (section 6) from an invocation's argument object.
\<close>

definition values_arg :: "'v InvokeArgs \<Rightarrow> 'v list" where
  "values_arg args = (case map_of args ''values'' of Some (Values vs) \<Rightarrow> vs | _ \<Rightarrow> [])"

text \<open>
  Modelled from the spec: load (section 6) parses the descriptor and establishes the pool
  and its first connection at once. The handle it answers with is the descriptor string.
  A call without a descriptor has nothing to parse and is rejected with InvalidScheme.
\<close>

definition plugin_load ::
  "(scheme \<Rightarrow> ('v, 'd, 't) Driver) \<Rightarrow> 'v InvokeArgs \<Rightarrow> 'd plugin \<Rightarrow> (error + string) \<times> 'd plugin" where
  "plugin_load resolve args st =
     (case str_arg args ''db'' of
        None \<Rightarrow> (Inl InvalidScheme, st)
      | Some raw \<Rightarrow>
          (case parse raw of
             Inl e \<Rightarrow> (Inl e, st)
           | Inr d \<Rightarrow>
               (case getOrCreate resolve d st of
                  Inl e \<Rightarrow> (Inl e, st)
                | Inr st' \<Rightarrow> (Inr raw, st'))))"

text \<open>
  Modelled from the spec: the Command Dispatcher's execute (section 4.4): acquire from the
  descriptor's pool, bind, run the statement, normalize.
\<close>

definition plugin_execute ::
  "(scheme \<Rightarrow> ('v, 'd, 't) Driver) \<Rightarrow> 'v InvokeArgs \<Rightarrow> 'd plugin \<Rightarrow>
     (error + nat \<times> nat) \<times> 'd plugin" where
  "plugin_execute resolve args st =
     (case (str_arg args ''db'', str_arg args ''sql'') of
        (Some raw, Some sql) \<Rightarrow>
          (case parse raw of
             Inl e \<Rightarrow> (Inl e, st)
           | Inr d \<Rightarrow>
               (case getOrCreate resolve d st of
                  Inl e \<Rightarrow> (Inl e, st)
                | Inr st' \<Rightarrow>
                    if \<not> list_all (drv_binds (resolve (fst d))) (values_arg args)
                    then (Inl UnsupportedParameterType, st')
                    else
                      (case drv_execute (resolve (fst d)) (snd d) sql (values_arg args) (data st') of
                         (Inl msg, x) \<Rightarrow> (Inl (QueryExecutionError msg), st'\<lparr>data := x\<rparr>)
                       | (Inr r, x) \<Rightarrow> (Inr (normalize (fst d) r), st'\<lparr>data := x\<rparr>))))
      | _ \<Rightarrow> (Inl InvalidScheme, st))"

text \<open>Modelled from the spec: the Command Dispatcher's select (section 4.4).\<close>

definition plugin_select ::
  "(scheme \<Rightarrow> ('v, 'd, 't) Driver) \<Rightarrow> 'v InvokeArgs \<Rightarrow> 'd plugin \<Rightarrow> (error + 't) \<times> 'd plugin" where
  "plugin_select resolve args st =
     (case (str_arg args ''db'', str_arg args ''sql'') of
        (Some raw, Some sql) \<Rightarrow>
          (case parse raw of
             Inl e \<Rightarrow> (Inl e, st)
           | Inr d \<Rightarrow>
               (case getOrCreate resolve d st of
                  Inl e \<Rightarrow> (Inl e, st)
                | Inr st' \<Rightarrow>
                    if \<not> list_all (drv_binds (resolve (fst d))) (values_arg args)
                    then (Inl UnsupportedParameterType, st')
                    else
                      (case drv_select (resolve (fst d)) (snd d) sql (values_arg args) (data st') of
                         (Inl msg, x) \<Rightarrow> (Inl (QueryExecutionError msg), st'\<lparr>data := x\<rparr>)
                       | (Inr rows, x) \<Rightarrow> (Inr rows, st'\<lparr>data := x\<rparr>))))
      | _ \<Rightarrow> (Inl InvalidScheme, st))"

text \<open>
  Modelled from the spec: the Lifecycle Manager (section 4.5). With a descriptor it closes
  that one pool and reports false when there is none; without one it closes every pool of
  the table. The answer says whether any pool state changed.
\<close>

definition close_pools ::
  "ConnectionDescriptor option \<Rightarrow> ConnectionDescriptor list \<Rightarrow> bool \<times> ConnectionDescriptor list" where
  "close_pools target table =
     (case target of
        None \<Rightarrow> (table \<noteq> [], [])
      | Some d \<Rightarrow> (d \<in> set table, removeAll d table))"

text \<open>
  Modelled from the spec: the close command (sections 4.5 and 6): the descriptor is the
  \<^verbatim>\<open>db\<close> property of the argument object, omitted when that property is missing.
\<close>

definition plugin_close :: "'v InvokeArgs \<Rightarrow> 'd plugin \<Rightarrow> (error + bool) \<times> 'd plugin" where
  "plugin_close args st =
     (case str_arg args ''db'' of
        None \<Rightarrow>
          (case close_pools None (pool_table st) of
             (changed, table) \<Rightarrow> (Inr changed, st\<lparr>pool_table := table\<rparr>))
      | Some raw \<Rightarrow>
          (case parse raw of
             Inl e \<Rightarrow> (Inl e, st)
           | Inr d \<Rightarrow>
               (case close_pools (Some d) (pool_table st) of
                  (changed, table) \<Rightarrow> (Inr changed, st\<lparr>pool_table := table\<rparr>))))"

text \<open>
  Modelled from the spec: the external interface of section 6, the four commands under the
  names the facade invokes them by. The numbers of a QueryResult are unsigned integers on
  this side.
\<close>

definition sql_plugin ::
  "(scheme \<Rightarrow> ('v, 'd, 't) Driver) \<Rightarrow> ('d plugin, error, 'v, nat, 't) tauri" where
  "sql_plugin resolve =
     \<lparr>invoke_string = (\<lambda>cmd args st.
        if cmd = ''plugin:sql|load'' then plugin_load resolve args st
        else (Inl CommandNotFound, st)),
      invoke_tuple = (\<lambda>cmd args st.
        if cmd = ''plugin:sql|execute'' then plugin_execute resolve args st
        else (Inl CommandNotFound, st)),
      invoke_T = (\<lambda>cmd args st.
        if cmd = ''plugin:sql|select'' then plugin_select resolve args st
        else (Inl CommandNotFound, st)),
      invoke_boolean = (\<lambda>cmd args st.
        if cmd = ''plugin:sql|close'' then plugin_close args st
        else (Inl CommandNotFound, st))\<rparr>"

section \<open>Properties of the facade\<close>

lemma is_DbConnection_form:
  "is_DbConnection c \<longleftrightarrow>
     (\<exists>scheme address. scheme \<in> {''sqlite'', ''postgres'', ''mysql''} \<and> c = scheme @ '':'' @ address)"
  unfolding is_DbConnection_def prefix_def by auto

lemma close_invocation:
  "trace (snd (snd (close b this w))) =
     trace w @ [(''plugin:sql|close'', [(''db'', Str (connection this))])]"
  by (simp add: close_def invoke_def split: prod.splits)

text \<open>
  C1. When the backend's execute command answers the call with the pair \<open>(n, i)\<close>,
  \<^verbatim>\<open>execute\<close> returns the record whose \<open>rowsAffected\<close> is \<open>n\<close> and whose \<open>lastInsertId\<close> is
  \<open>i\<close>, with no further field and both values as they came.
\<close>

theorem execute_returns_backend_pair:
  assumes "invoke_tuple b ''plugin:sql|execute''
             [(''db'', Str (connection this)), (''sql'', Str sql),
              (''values'', Values (or_empty bindValues))] (native w) = (Inr (n, i), s')"
  shows "fst (execute b sql bindValues this w) = Inr \<lparr>rowsAffected = n, lastInsertId = i\<rparr>"
  using assms by (simp add: execute_def invoke_def)

theorem execute_returns_backend_pair_witness:
  "fst (execute
     \<lparr>invoke_string = (\<lambda>cmd args s. (Inl ''unknown command'', s)),
      invoke_tuple = (\<lambda>cmd args s.
        if cmd = ''plugin:sql|execute'' then (Inr (length args, s), Suc s)
        else (Inl ''unknown command'', s)),
      invoke_T = (\<lambda>cmd args s. (Inl ''unknown command'', s)),
      invoke_boolean = (\<lambda>cmd args s. (Inl ''unknown command'', s))\<rparr>
     ''INSERT INTO t(x) VALUES ($1)'' (Some [5::int]) \<lparr>connection = ''sqlite:test.db''\<rparr>
     \<lparr>native = 7, trace = []\<rparr>)
   = (Inr \<lparr>rowsAffected = 3, lastInsertId = 7\<rparr> :: string + nat QueryResult)"
  by (rule execute_returns_backend_pair [where s' = 8]) simp

text \<open>
  C2. \<^verbatim>\<open>get c\<close> returns a handle whose connection is \<open>c\<close> and leaves the world as it was:
  no invocation is recorded and the native side keeps its state. The first invocation
  after it is the one made by the first \<^verbatim>\<open>execute\<close> or \<^verbatim>\<open>select\<close> on the handle.
\<close>

theorem get_is_lazy:
  "fst (get c w) = \<lparr>connection = c\<rparr> \<and> snd (get c w) = w
   \<and> trace (snd (snd (execute b sql bindValues (fst (get c w)) (snd (get c w))))) =
       trace w @ [(''plugin:sql|execute'',
                   [(''db'', Str c), (''sql'', Str sql), (''values'', Values (or_empty bindValues))])]
   \<and> trace (snd (snd (select b sql bindValues (fst (get c w)) (snd (get c w))))) =
       trace w @ [(''plugin:sql|select'',
                   [(''db'', Str c), (''sql'', Str sql), (''values'', Values (or_empty bindValues))])]"
  by (simp add: get_def new_Database_def execute_def select_def invoke_def
           split: prod.splits sum.splits)

text \<open>
  C3. \<^verbatim>\<open>load c\<close> invokes the backend's load command exactly once: the world after it is the
  native state that one call left, with that one call added to the trace. If the call
  failed with \<open>e\<close>, so does \<^verbatim>\<open>load\<close>, and there is no handle; if it answered \<open>conn\<close>,
  \<^verbatim>\<open>load\<close> returns the handle whose connection is \<open>conn\<close>.
\<close>

theorem load_invokes_once:
  assumes "invoke_string b ''plugin:sql|load'' [(''db'', Str c)] (native w) = (r, s')"
  shows "snd (load b c w) =
           \<lparr>native = s', trace = trace w @ [(''plugin:sql|load'', [(''db'', Str c)])]\<rparr>
         \<and> (\<forall>e. r = Inl e \<longrightarrow> fst (load b c w) = Inl e)
         \<and> (\<forall>conn. r = Inr conn \<longrightarrow> fst (load b c w) = Inr \<lparr>connection = conn\<rparr>)"
  using assms by (cases r) (simp_all add: load_def invoke_def new_Database_def)

theorem load_invokes_once_witness:
  "let b = \<lparr>invoke_string = (\<lambda>cmd args up.
               if cmd = ''plugin:sql|load'' \<and> up then (Inr ''sqlite:test.db'', up)
               else (Inl ''unable to open database file'', up)),
             invoke_tuple = (\<lambda>cmd args up. (Inl ''unknown command'', up)),
             invoke_T = (\<lambda>cmd args up. (Inl ''unknown command'', up)),
             invoke_boolean = (\<lambda>cmd args up. (Inl ''unknown command'', up))\<rparr>
         :: (bool, string, int, nat, int list) tauri
   in load b ''sqlite:test.db'' \<lparr>native = True, trace = []\<rparr> =
        (Inr \<lparr>connection = ''sqlite:test.db''\<rparr>,
         \<lparr>native = True, trace = [(''plugin:sql|load'', [(''db'', Str ''sqlite:test.db'')])]\<rparr>)
      \<and> load b ''sqlite:test.db'' \<lparr>native = False, trace = []\<rparr> =
        (Inl ''unable to open database file'',
         \<lparr>native = False, trace = [(''plugin:sql|load'', [(''db'', Str ''sqlite:test.db'')])]\<rparr>)"
  (is "let b = ?b in _")
  using load_invokes_once [of ?b "''sqlite:test.db''" "\<lparr>native = True, trace = []\<rparr>"
          "Inr ''sqlite:test.db''" True]
        load_invokes_once [of ?b "''sqlite:test.db''" "\<lparr>native = False, trace = []\<rparr>"
          "Inl ''unable to open database file''" False]
  by (simp add: Let_def prod_eq_iff)

text \<open>
  C4. \<^verbatim>\<open>select\<close> returns what the backend's select command returns for that call, be it
  the rows or the error, and nothing else happens: the call is made once, on the native
  state as it is, and the state it leaves is the one the facade leaves.
\<close>

theorem select_returns_backend_value:
  "fst (select b sql bindValues this w) =
     fst (invoke_T b ''plugin:sql|select''
            [(''db'', Str (connection this)), (''sql'', Str sql),
             (''values'', Values (or_empty bindValues))] (native w))
   \<and> native (snd (snd (select b sql bindValues this w))) =
     snd (invoke_T b ''plugin:sql|select''
            [(''db'', Str (connection this)), (''sql'', Str sql),
             (''values'', Values (or_empty bindValues))] (native w))
   \<and> trace (snd (snd (select b sql bindValues this w))) =
     trace w @ [(''plugin:sql|select'',
                 [(''db'', Str (connection this)), (''sql'', Str sql),
                  (''values'', Values (or_empty bindValues))])]"
  by (simp add: select_def invoke_def split: prod.splits)

text \<open>
  C6. Each of \<^verbatim>\<open>load\<close>, \<^verbatim>\<open>execute\<close>, \<^verbatim>\<open>select\<close> and \<^verbatim>\<open>close\<close> fails with the error \<open>e\<close>
  exactly when its backend call failed with \<open>e\<close>. So an error of the backend is never
  caught, replaced or accompanied by a result, and the facade raises none of its own.
\<close>

theorem facade_errors_propagate:
  "(fst (load b c w) = Inl e) =
     (fst (invoke_string b ''plugin:sql|load'' [(''db'', Str c)] (native w)) = Inl e)
   \<and> (fst (execute b sql bindValues this w) = Inl e) =
     (fst (invoke_tuple b ''plugin:sql|execute''
             [(''db'', Str (connection this)), (''sql'', Str sql),
              (''values'', Values (or_empty bindValues))] (native w)) = Inl e)
   \<and> (fst (select b sql bindValues this w) = Inl e) =
     (fst (invoke_T b ''plugin:sql|select''
             [(''db'', Str (connection this)), (''sql'', Str sql),
              (''values'', Values (or_empty bindValues))] (native w)) = Inl e)
   \<and> (fst (close b this w) = Inl e) =
     (fst (invoke_boolean b ''plugin:sql|close'' [(''db'', Str (connection this))] (native w)) = Inl e)"
  by (simp add: load_def execute_def select_def close_def invoke_def
           split: prod.splits sum.splits)

text \<open>
  C7. A string of type \<^verbatim>\<open>DbConnection\<close> is a scheme, a colon and an address, the scheme
  being sqlite, postgres or mysql; and it reaches the backend as it is: \<^verbatim>\<open>load\<close> sends it
  as \<^verbatim>\<open>db\<close>, and so does every method of the handle that \<^verbatim>\<open>get\<close> makes of it.
\<close>

theorem descriptor_passed_verbatim:
  assumes "is_DbConnection c"
  shows "(\<exists>scheme address.
            scheme \<in> {''sqlite'', ''postgres'', ''mysql''} \<and> c = scheme @ '':'' @ address)
         \<and> trace (snd (load b c w)) = trace w @ [(''plugin:sql|load'', [(''db'', Str c)])]
         \<and> connection (fst (get c w)) = c
         \<and> trace (snd (snd (execute b sql bindValues (fst (get c w)) w))) =
             trace w @ [(''plugin:sql|execute'',
                         [(''db'', Str c), (''sql'', Str sql),
                          (''values'', Values (or_empty bindValues))])]
         \<and> trace (snd (snd (select b sql bindValues (fst (get c w)) w))) =
             trace w @ [(''plugin:sql|select'',
                         [(''db'', Str c), (''sql'', Str sql),
                          (''values'', Values (or_empty bindValues))])]
         \<and> trace (snd (snd (close b (fst (get c w)) w))) =
             trace w @ [(''plugin:sql|close'', [(''db'', Str c)])]"
  using assms
  by (simp add: is_DbConnection_form load_def get_def new_Database_def execute_def select_def
        close_def invoke_def split: prod.splits sum.splits)

theorem descriptor_passed_verbatim_witness:
  "is_DbConnection ''mysql://root@localhost/app''
   \<and> trace (snd (load
        (\<lparr>invoke_string = (\<lambda>cmd args n. (Inr ''mysql://root@localhost/app'', Suc n)),
          invoke_tuple = (\<lambda>cmd args n. (Inr (1, n), Suc n)),
          invoke_T = (\<lambda>cmd args n. (Inr [n], Suc n)),
          invoke_boolean = (\<lambda>cmd args n. (Inr True, Suc n))\<rparr>
         :: (nat, string, int, nat, nat list) tauri)
        ''mysql://root@localhost/app'' \<lparr>native = 0, trace = []\<rparr>))
     = [(''plugin:sql|load'', [(''db'', Str ''mysql://root@localhost/app'')])]"
  (is "_ \<and> trace (snd (load ?b ?c ?w)) = _")
proof -
  have h: "is_DbConnection ''mysql://root@localhost/app''"
    by (simp add: is_DbConnection_def)
  from descriptor_passed_verbatim [OF h, of ?b ?w] h show ?thesis
    by simp
qed

text \<open>
  C9. Leaving \<^verbatim>\<open>bindValues\<close> out is the same as passing the empty list, for \<^verbatim>\<open>execute\<close>
  and for \<^verbatim>\<open>select\<close>: same result, same handle, same world; and the backend is sent an
  empty \<^verbatim>\<open>values\<close> array.
\<close>

theorem omitted_bindValues_is_empty_list:
  "execute b sql None this w = execute b sql (Some []) this w
   \<and> select b sql None this w = select b sql (Some []) this w
   \<and> trace (snd (snd (execute b sql None this w))) =
       trace w @ [(''plugin:sql|execute'',
                   [(''db'', Str (connection this)), (''sql'', Str sql), (''values'', Values [])])]
   \<and> trace (snd (snd (select b sql None this w))) =
       trace w @ [(''plugin:sql|select'',
                   [(''db'', Str (connection this)), (''sql'', Str sql), (''values'', Values [])])]"
  by (simp add: execute_def select_def invoke_def or_empty_def split: prod.splits sum.splits)

text \<open>
  C10. The constructor stores any string as it is, also one that is no \<^verbatim>\<open>DbConnection\<close>,
  and \<^verbatim>\<open>execute\<close>, \<^verbatim>\<open>select\<close> and \<^verbatim>\<open>close\<close> hand back the object they were called on
  unchanged, whatever the backend answers.
\<close>

theorem connection_field_is_stable:
  "connection (new_Database c) = c
   \<and> \<not> is_DbConnection ''oracle:test.db''
   \<and> connection (new_Database ''oracle:test.db'') = ''oracle:test.db''
   \<and> fst (snd (execute b sql bindValues this w)) = this
   \<and> fst (snd (select b sql bindValues this w)) = this
   \<and> fst (snd (close b this w)) = this"
  by (simp add: is_DbConnection_def new_Database_def execute_def select_def close_def invoke_def
           split: prod.splits sum.splits)

section \<open>Properties that involve the native side\<close>

text \<open>
  C5. \<^verbatim>\<open>close\<close> has no parameter: whatever the caller wants, the backend is sent the
  descriptor of the handle. With pools for \<^verbatim>\<open>sqlite:a.db\<close> and \<^verbatim>\<open>sqlite:b.db\<close> loaded,
  \<^verbatim>\<open>close()\<close> on the handle of the first answers true and leaves the second pool in the
  table, where a close without a descriptor would have emptied it.
\<close>

theorem close_always_names_its_own_pool:
  "let b = (sql_plugin (\<lambda>s. \<lparr>drv_open = (\<lambda>address d. True), drv_binds = (\<lambda>v. True),
                           drv_execute = (\<lambda>address sql vs d. (Inr (length vs, Some 42), Suc d)),
                           drv_select = (\<lambda>address sql vs d. (Inr [d], d))\<rparr>)
         :: (nat plugin, error, int, nat, nat list) tauri);
       (ra, w1) = load b ''sqlite:a.db'' \<lparr>native = \<lparr>pool_table = [], data = 0\<rparr>, trace = []\<rparr>;
       (rb, w2) = load b ''sqlite:b.db'' w1
   in ra = Inr \<lparr>connection = ''sqlite:a.db''\<rparr>
      \<and> rb = Inr \<lparr>connection = ''sqlite:b.db''\<rparr>
      \<and> pool_table (native w2) = [(sqlite, ''a.db''), (sqlite, ''b.db'')]
      \<and> close b \<lparr>connection = ''sqlite:a.db''\<rparr> w2 =
          (Inr True, \<lparr>connection = ''sqlite:a.db''\<rparr>,
           \<lparr>native = \<lparr>pool_table = [(sqlite, ''b.db'')], data = 0\<rparr>,
            trace = [(''plugin:sql|load'', [(''db'', Str ''sqlite:a.db'')]),
                     (''plugin:sql|load'', [(''db'', Str ''sqlite:b.db'')]),
                     (''plugin:sql|close'', [(''db'', Str ''sqlite:a.db'')])]\<rparr>)
      \<and> plugin_close [] (native w2) = (Inr True, \<lparr>pool_table = [], data = 0\<rparr>)"
  by (simp add: Let_def load_def new_Database_def close_def invoke_def sql_plugin_def
        plugin_load_def plugin_close_def getOrCreate_def str_arg_def
        parse_def scheme_of_def to_lower_def close_pools_def)

text \<open>
  C8. On a handle whose descriptor has the scheme postgres, every \<^verbatim>\<open>execute\<close> that returns
  a QueryResult returns one whose \<open>lastInsertId\<close> is 0, whatever the driver reported.
\<close>

theorem postgres_lastInsertId_is_zero:
  assumes "parse (connection this) = Inr (postgres, address)"
    and "fst (execute (sql_plugin resolve) sql bindValues this w) = Inr r"
  shows "lastInsertId r = 0"
  using assms
  by (auto simp: execute_def invoke_def sql_plugin_def plugin_execute_def str_arg_def
        normalize_def has_last_insert_id_def
        split: prod.splits sum.splits if_splits option.splits)

theorem postgres_lastInsertId_is_zero_witness:
  "parse ''postgres://app@db.local/todos'' = Inr (postgres, ''//app@db.local/todos'')
   \<and> fst (execute
        (sql_plugin (\<lambda>s. \<lparr>drv_open = (\<lambda>address d. True), drv_binds = (\<lambda>v. True),
                           drv_execute = (\<lambda>address sql vs d. (Inr (length vs, Some 42), Suc d)),
                           drv_select = (\<lambda>address sql vs d. (Inr [d], d))\<rparr>)
         :: (nat plugin, error, int, nat, nat list) tauri)
        ''INSERT INTO todos (title) VALUES ($1)'' (Some [5])
        \<lparr>connection = ''postgres://app@db.local/todos''\<rparr>
        \<lparr>native = \<lparr>pool_table = [], data = 0\<rparr>, trace = []\<rparr>)
     = Inr \<lparr>rowsAffected = 1, lastInsertId = 0\<rparr>"
  (is "_ \<and> fst (execute (sql_plugin ?res) ?sql ?bv ?db ?w) = _")
proof -
  have p: "parse (connection ?db) = Inr (postgres, ''//app@db.local/todos'')"
    by (simp add: parse_def scheme_of_def to_lower_def)
  have "\<exists>r. fst (execute (sql_plugin ?res) ?sql ?bv ?db ?w) = Inr r \<and> rowsAffected r = 1"
    using p
    by (simp add: execute_def invoke_def sql_plugin_def plugin_execute_def str_arg_def
          values_arg_def or_empty_def getOrCreate_def normalize_def)
  then obtain r where r: "fst (execute (sql_plugin ?res) ?sql ?bv ?db ?w) = Inr r"
    and a: "rowsAffected r = 1"
    by blast
  from postgres_lastInsertId_is_zero [OF p r] have "lastInsertId r = 0" .
  with a have "r = \<lparr>rowsAffected = 1, lastInsertId = 0\<rparr>"
    by simp
  with p r show ?thesis
    by simp
qed

end
